theory Spec2Isabelle
  imports Main
begin

section \<open>Python values and exceptions\<close>

text \<open>
  Python text is modelled as \<^typ>\<open>string\<close>, a list of bytes: a character outside
  ASCII is written as its UTF-8 bytes. Equality, concatenation and the search for an ASCII
  substring agree with Python's on this encoding; the number of code points is not used.
\<close>

text \<open>\<^verbatim>\<open>class Language(str, Enum)\<close> of \<^verbatim>\<open>src/config/i18n.py\<close>.\<close>

datatype Language = EN | ES | FR | DE | JA

text \<open>The member's value, the text the member compares equal to.\<close>

fun Language_value :: "Language \<Rightarrow> string" where
  "Language_value EN = ''en''"
| "Language_value ES = ''es''"
| "Language_value FR = ''fr''"
| "Language_value DE = ''de''"
| "Language_value JA = ''ja''"

definition Language_members :: "Language list" where
  "Language_members = [EN, ES, FR, DE, JA]"

text \<open>\<^verbatim>\<open>class TemplateCategory(enum.Enum)\<close> of \<^verbatim>\<open>src/config/templates.py\<close>.\<close>

datatype TemplateCategory = FORMAL | CASUAL | FUNNY | BUSINESS

text \<open>
  The functions are not typed at run time, so an argument is any Python value. The values
  the development distinguishes: \<^verbatim>\<open>None\<close>, a bool, an int, a text, a list (the
  unhashable values), and the members of the two enumerations.
\<close>

datatype pyval =
    PyNone
  | PyBool bool
  | PyInt int
  | PyStr string
  | PyList "pyval list"
  | PyLanguage Language
  | PyTemplateCategory TemplateCategory

text \<open>
  The exceptions the source raises, by class. The message text of an exception is not
  modelled. \<open>TypeError\<close> is what hashing a list raises inside a dictionary lookup,
  \<open>AttributeError\<close> what reading an attribute that an object does not have raises.
\<close>

datatype error = ValueError | KeyError | TypeError | AttributeError

fun hashable :: "pyval \<Rightarrow> bool" where
  "hashable (PyList xs) = False"
| "hashable v = True"

text \<open>
  Python's \<^verbatim>\<open>==\<close> of a value with a text key. \<^verbatim>\<open>Language\<close> mixes in
  \<^verbatim>\<open>str\<close>: a member equals its value and hashes like it.
\<close>

fun py_eq_str :: "pyval \<Rightarrow> string \<Rightarrow> bool" where
  "py_eq_str (PyStr s) k = (s = k)"
| "py_eq_str (PyLanguage l) k = (Language_value l = k)"
| "py_eq_str v k = False"

text \<open>Python's \<^verbatim>\<open>==\<close> of a value with a member of \<^verbatim>\<open>Language\<close>.\<close>

definition py_eq_Language :: "pyval \<Rightarrow> Language \<Rightarrow> bool" where
  "py_eq_Language v l = py_eq_str v (Language_value l)"

text \<open>
  \<^verbatim>\<open>key in d\<close> and \<^verbatim>\<open>d[key]\<close> for a dictionary, given as the list of its
  items in insertion order and the equality of a value with a key: the key is hashed first,
  which raises for an unhashable value.
\<close>

fun dict_find :: "(pyval \<Rightarrow> 'k \<Rightarrow> bool) \<Rightarrow> pyval \<Rightarrow> ('k \<times> 'v) list \<Rightarrow> 'v option" where
  "dict_find eq v [] = None"
| "dict_find eq v ((k, x) # d) = (if eq v k then Some x else dict_find eq v d)"

definition dict_contains :: "(pyval \<Rightarrow> 'k \<Rightarrow> bool) \<Rightarrow> pyval \<Rightarrow> ('k \<times> 'v) list \<Rightarrow> error + bool" where
  "dict_contains eq v d =
     (if \<not> hashable v then Inl TypeError else Inr (dict_find eq v d \<noteq> None))"

definition dict_getitem :: "(pyval \<Rightarrow> 'k \<Rightarrow> bool) \<Rightarrow> pyval \<Rightarrow> ('k \<times> 'v) list \<Rightarrow> error + 'v" where
  "dict_getitem eq v d =
     (if \<not> hashable v then Inl TypeError
      else case dict_find eq v d of None \<Rightarrow> Inl KeyError | Some x \<Rightarrow> Inr x)"

section \<open>Translations (src/config/i18n.py)\<close>

record Translations =
  greeting_prefix :: string
  greeting_suffix :: string
  error_messages :: "(string \<times> string) list"

definition TRANSLATIONS :: "(Language \<times> Translations) list" where
  "TRANSLATIONS =
    [(EN, \<lparr>greeting_prefix = ''Hello'', greeting_suffix = ''!'',
          error_messages =
            [(''invalid_name'', ''Name cannot be empty''),
             (''invalid_template'', ''Invalid template style''),
             (''invalid_language'', ''Unsupported language'')]\<rparr>),
     (ES, \<lparr>greeting_prefix = [CHR 0xC2, CHR 0xA1] @ ''Hola'', greeting_suffix = ''!'',
          error_messages =
            [(''invalid_name'', ''El nombre no puede estar vac'' @ [CHR 0xC3, CHR 0xAD] @ ''o''),
             (''invalid_template'', ''Estilo de plantilla inv'' @ [CHR 0xC3, CHR 0xA1] @ ''lido''),
             (''invalid_language'', ''Idioma no soportado'')]\<rparr>),
     (FR, \<lparr>greeting_prefix = ''Bonjour'', greeting_suffix = ''!'',
          error_messages =
            [(''invalid_name'', ''Le nom ne peut pas '' @ [CHR 0xC3, CHR 0xAA] @ ''tre vide''),
             (''invalid_template'', ''Style de mod'' @ [CHR 0xC3, CHR 0xA8] @ ''le invalide''),
             (''invalid_language'', ''Langue non support'' @ [CHR 0xC3, CHR 0xA9] @ ''e'')]\<rparr>),
     (DE, \<lparr>greeting_prefix = ''Hallo'', greeting_suffix = ''!'',
          error_messages =
            [(''invalid_name'', ''Name darf nicht leer sein''),
             (''invalid_template'', ''Ung'' @ [CHR 0xC3, CHR 0xBC] @ ''ltiger Vorlagenstil''),
             (''invalid_language'', ''Nicht unterst'' @ [CHR 0xC3, CHR 0xBC] @ ''tzte Sprache'')]\<rparr>),
     (JA, \<lparr>greeting_prefix =
            [CHR 0xE3, CHR 0x81, CHR 0x93, CHR 0xE3, CHR 0x82, CHR 0x93, CHR 0xE3, CHR 0x81, CHR 0xAB,
             CHR 0xE3, CHR 0x81, CHR 0xA1, CHR 0xE3, CHR 0x81, CHR 0xAF],
          greeting_suffix = [CHR 0xEF, CHR 0xBC, CHR 0x81],
          error_messages =
            [(''invalid_name'',
              [CHR 0xE5, CHR 0x90, CHR 0x8D, CHR 0xE5, CHR 0x89, CHR 0x8D, CHR 0xE3, CHR 0x82, CHR 0x92,
               CHR 0xE5, CHR 0x85, CHR 0xA5, CHR 0xE5, CHR 0x8A, CHR 0x9B, CHR 0xE3, CHR 0x81, CHR 0x97,
               CHR 0xE3, CHR 0x81, CHR 0xA6, CHR 0xE3, CHR 0x81, CHR 0x8F, CHR 0xE3, CHR 0x81, CHR 0xA0,
               CHR 0xE3, CHR 0x81, CHR 0x95, CHR 0xE3, CHR 0x81, CHR 0x84]),
             (''invalid_template'',
              [CHR 0xE7, CHR 0x84, CHR 0xA1, CHR 0xE5, CHR 0x8A, CHR 0xB9, CHR 0xE3, CHR 0x81, CHR 0xAA,
               CHR 0xE3, CHR 0x83, CHR 0x86, CHR 0xE3, CHR 0x83, CHR 0xB3, CHR 0xE3, CHR 0x83, CHR 0x97,
               CHR 0xE3, CHR 0x83, CHR 0xAC, CHR 0xE3, CHR 0x83, CHR 0xBC, CHR 0xE3, CHR 0x83, CHR 0x88,
               CHR 0xE3, CHR 0x82, CHR 0xB9, CHR 0xE3, CHR 0x82, CHR 0xBF, CHR 0xE3, CHR 0x82, CHR 0xA4,
               CHR 0xE3, CHR 0x83, CHR 0xAB]),
             (''invalid_language'',
              [CHR 0xE3, CHR 0x82, CHR 0xB5, CHR 0xE3, CHR 0x83, CHR 0x9D, CHR 0xE3, CHR 0x83, CHR 0xBC,
               CHR 0xE3, CHR 0x83, CHR 0x88, CHR 0xE3, CHR 0x81, CHR 0x95, CHR 0xE3, CHR 0x82, CHR 0x8C,
               CHR 0xE3, CHR 0x81, CHR 0xA6, CHR 0xE3, CHR 0x81, CHR 0x84, CHR 0xE3, CHR 0x81, CHR 0xAA,
               CHR 0xE3, CHR 0x81, CHR 0x84, CHR 0xE8, CHR 0xA8, CHR 0x80, CHR 0xE8, CHR 0xAA, CHR 0x9E])]\<rparr>)]"

text \<open>
  \<^verbatim>\<open>get_translation\<close>: \<^verbatim>\<open>if language not in _TRANSLATIONS: raise ValueError\<close>,
  then \<^verbatim>\<open>return _TRANSLATIONS[language]\<close>.
\<close>

definition get_translation :: "pyval \<Rightarrow> error + Translations" where
  "get_translation language =
     (case dict_contains py_eq_Language language TRANSLATIONS of
        Inl e \<Rightarrow> Inl e
      | Inr found \<Rightarrow>
          if \<not> found then Inl ValueError
          else dict_getitem py_eq_Language language TRANSLATIONS)"

text \<open>\<^verbatim>\<open>d.get(key, default)\<close> for a dictionary with text keys and a text argument.\<close>

definition dict_get :: "(string \<times> 'v) list \<Rightarrow> string \<Rightarrow> 'v \<Rightarrow> 'v" where
  "dict_get d key dflt = (case map_of d key of None \<Rightarrow> dflt | Some x \<Rightarrow> x)"

definition translate_error :: "string \<Rightarrow> pyval \<Rightarrow> error + string" where
  "translate_error error_key language =
     (case get_translation language of
        Inl e \<Rightarrow> Inl e
      | Inr translations \<Rightarrow> Inr (dict_get (error_messages translations) error_key error_key))"

section \<open>Templates (src/config/templates.py)\<close>

record TemplateInfo =
  pattern :: string
  category :: TemplateCategory
  tags :: "string set"
  description :: string

definition templates :: "(string \<times> TemplateInfo) list" where
  "templates =
    [(''default'', \<lparr>pattern = ''Hello, {name}! {message}'', category = CASUAL,
        tags = {''simple'', ''general''}, description = ''A simple, casual greeting''\<rparr>),
     (''formal'', \<lparr>pattern = ''Dear {name}, {message}'', category = FORMAL,
        tags = {''polite'', ''business''}, description = ''A formal, professional greeting''\<rparr>),
     (''friendly'', \<lparr>pattern = ''Hey {name}! {message}'', category = CASUAL,
        tags = {''informal'', ''friendly''}, description = ''A friendly, informal greeting''\<rparr>),
     (''enthusiastic'',
      \<lparr>pattern = ''Hi {name}! {message} '' @ [CHR 0xF0, CHR 0x9F, CHR 0x8E, CHR 0x89],
        category = FUNNY, tags = {''fun'', ''emoji''},
        description = ''An enthusiastic greeting with emoji''\<rparr>)]"

definition list_templates :: "(string \<times> TemplateInfo) list" where
  "list_templates = templates"

text \<open>\<^verbatim>\<open>isinstance(category, TemplateCategory)\<close>.\<close>

fun isinstance_TemplateCategory :: "pyval \<Rightarrow> bool" where
  "isinstance_TemplateCategory (PyTemplateCategory c) = True"
| "isinstance_TemplateCategory v = False"

text \<open>
  \<^verbatim>\<open>info.category == category\<close>: \<^verbatim>\<open>TemplateCategory\<close> is a plain
  \<^verbatim>\<open>Enum\<close>, a member equals itself only.
\<close>

fun py_eq_TemplateCategory :: "TemplateCategory \<Rightarrow> pyval \<Rightarrow> bool" where
  "py_eq_TemplateCategory c (PyTemplateCategory c') = (c = c')"
| "py_eq_TemplateCategory c v = False"

definition get_by_category :: "pyval \<Rightarrow> error + (string \<times> TemplateInfo) list" where
  "get_by_category cat =
     (if \<not> isinstance_TemplateCategory cat then Inl ValueError
      else Inr (filter (\<lambda>(name, info). py_eq_TemplateCategory (category info) cat) templates))"

text \<open>
  \<^verbatim>\<open>search_by_tags\<close>: the comprehension keeps the items with
  \<^verbatim>\<open>tags & info.tags\<close> truthy, a non-empty intersection. The argument is a set of texts.
\<close>

definition search_by_tags :: "string set \<Rightarrow> (string \<times> TemplateInfo) list" where
  "search_by_tags qtags = filter (\<lambda>(name, info). qtags \<inter> tags info \<noteq> {}) templates"

definition get_template_info :: "string \<Rightarrow> error + TemplateInfo" where
  "get_template_info name =
     (case map_of templates name of None \<Rightarrow> Inl KeyError | Some info \<Rightarrow> Inr info)"

definition get_template :: "string \<Rightarrow> error + string" where
  "get_template name =
     (case map_of templates name of None \<Rightarrow> Inl KeyError | Some info \<Rightarrow> Inr (pattern info))"

text \<open>Python's \<^verbatim>\<open>s.startswith(p)\<close> and \<^verbatim>\<open>p in s\<close> on texts.\<close>

fun startswith :: "string \<Rightarrow> string \<Rightarrow> bool" where
  "startswith s [] = True"
| "startswith [] (p # ps) = False"
| "startswith (c # cs) (p # ps) = (c = p \<and> startswith cs ps)"

fun contains :: "string \<Rightarrow> string \<Rightarrow> bool" where
  "contains [] p = (p = [])"
| "contains (c # cs) p = (startswith (c # cs) p \<or> contains cs p)"

section \<open>Validation (src/config/validation.py)\<close>

text \<open>\<^verbatim>\<open>class LogLevel(str, Enum)\<close>; \<^verbatim>\<open>LogLevel.__members__\<close> maps each name to its member.\<close>

datatype LogLevel = DEBUG | INFO | WARNING | ERROR | CRITICAL

definition LogLevel_members :: "(string \<times> LogLevel) list" where
  "LogLevel_members =
     [(''DEBUG'', DEBUG), (''INFO'', INFO), (''WARNING'', WARNING), (''ERROR'', ERROR),
      (''CRITICAL'', CRITICAL)]"

text \<open>
  The argument of \<^verbatim>\<open>validate_config\<close> is any object: the model keeps what reading
  each of its attributes does, giving a value or raising an exception.
  \<^verbatim>\<open>AttributeError\<close> is raised when the object has no such attribute; a property
  can raise any other exception. Reading an attribute twice does the same twice.
\<close>

type_synonym pyobject = "string \<Rightarrow> error + pyval"

text \<open>An object without attributes, as \<^verbatim>\<open>object()\<close>.\<close>

definition no_attributes :: pyobject where
  "no_attributes a = Inl AttributeError"

text \<open>
  \<^verbatim>\<open>hasattr(config, a)\<close> reads the attribute: \<^verbatim>\<open>AttributeError\<close> makes it
  false, any other exception comes out of it. \<^verbatim>\<open>getattr(config, a, dflt)\<close> likewise
  gives the default on \<^verbatim>\<open>AttributeError\<close> only.
\<close>

definition hasattr :: "pyobject \<Rightarrow> string \<Rightarrow> error + bool" where
  "hasattr config a =
     (case config a of
        Inr v \<Rightarrow> Inr True
      | Inl AttributeError \<Rightarrow> Inr False
      | Inl e \<Rightarrow> Inl e)"

definition getattr_default :: "pyobject \<Rightarrow> string \<Rightarrow> pyval \<Rightarrow> error + pyval" where
  "getattr_default config a dflt =
     (case config a of
        Inr v \<Rightarrow> Inr v
      | Inl AttributeError \<Rightarrow> Inr dflt
      | Inl e \<Rightarrow> Inl e)"

text \<open>
  An entry of the returned list. \<open>FText t v\<close> is the f-string \<^verbatim>\<open>f"t{v}"\<close>: the fixed
  text followed by the value as Python formats it; the formatting of a value is the
  interpreter's and is not modelled. \<open>Text t\<close> is a plain literal.
\<close>

datatype message = Text string | FText string pyval

fun isinstance_Language :: "pyval \<Rightarrow> bool" where
  "isinstance_Language (PyLanguage l) = True"
| "isinstance_Language v = False"

text \<open>
  \<^verbatim>\<open>Language(value)\<close>: the member whose value equals the argument (a member gives
  itself), \<^verbatim>\<open>ValueError\<close> when there is none. An unhashable argument is compared with
  each member's value in turn and ends in \<^verbatim>\<open>ValueError\<close> as well.
\<close>

definition Language_call :: "pyval \<Rightarrow> error + Language" where
  "Language_call v =
     (case filter (py_eq_Language v) Language_members of
        [] \<Rightarrow> Inl ValueError
      | l # ls \<Rightarrow> Inr l)"

text \<open>
  The condition of the first two checks,
  \<^verbatim>\<open>not hasattr(config, a) or config.a not in d\<close>, for a dictionary \<open>d\<close> with text
  keys: the membership test is reached only when the attribute is there, and hashes its
  value.
\<close>

definition attr_not_in :: "pyobject \<Rightarrow> string \<Rightarrow> (string \<times> 'v) list \<Rightarrow> error + bool" where
  "attr_not_in config a d =
     (case hasattr config a of
        Inl e \<Rightarrow> Inl e
      | Inr has \<Rightarrow>
          if \<not> has then Inr True
          else (case config a of
                  Inl e \<Rightarrow> Inl e
                | Inr v \<Rightarrow>
                    (case dict_contains py_eq_str v d of
                       Inl e \<Rightarrow> Inl e
                     | Inr found \<Rightarrow> Inr (\<not> found))))"

text \<open>
  \<^verbatim>\<open>errors.append(f"t{getattr(config, a, None)}")\<close>, on the list \<^verbatim>\<open>errors\<close> so
  far.
\<close>

definition append_invalid :: "string \<Rightarrow> pyobject \<Rightarrow> string \<Rightarrow> message list \<Rightarrow> error + message list" where
  "append_invalid t config a errors =
     (case getattr_default config a PyNone of
        Inl e \<Rightarrow> Inl e
      | Inr v \<Rightarrow> Inr (errors @ [FText t v]))"

text \<open>The three steps of \<^verbatim>\<open>validate_config\<close>, each on the list \<^verbatim>\<open>errors\<close> so far.\<close>

definition validate_log_level :: "pyobject \<Rightarrow> message list \<Rightarrow> error + message list" where
  "validate_log_level config errors =
     (case attr_not_in config ''log_level'' LogLevel_members of
        Inl e \<Rightarrow> Inl e
      | Inr invalid \<Rightarrow>
          if invalid then append_invalid ''Invalid log level: '' config ''log_level'' errors
          else Inr errors)"

definition validate_template_style :: "pyobject \<Rightarrow> message list \<Rightarrow> error + message list" where
  "validate_template_style config errors =
     (case attr_not_in config ''template_style'' list_templates of
        Inl e \<Rightarrow> Inl e
      | Inr invalid \<Rightarrow>
          if invalid
          then append_invalid ''Invalid template style: '' config ''template_style'' errors
          else Inr errors)"

text \<open>
  The third step. Only \<^verbatim>\<open>ValueError\<close> is caught, around the conversion
  \<^verbatim>\<open>Language(config.language)\<close>.
\<close>

definition validate_language :: "pyobject \<Rightarrow> message list \<Rightarrow> error + message list" where
  "validate_language config errors =
     (case hasattr config ''language'' of
        Inl e \<Rightarrow> Inl e
      | Inr has \<Rightarrow>
          if \<not> has then Inr (errors @ [Text ''Language not specified''])
          else (case config ''language'' of
                  Inl e \<Rightarrow> Inl e
                | Inr v \<Rightarrow>
                    if isinstance_Language v then Inr errors
                    else (case Language_call v of
                            Inr l \<Rightarrow> Inr errors
                          | Inl ValueError \<Rightarrow> Inr (errors @ [FText ''Invalid language: '' v])
                          | Inl e \<Rightarrow> Inl e)))"

definition validate_config :: "pyobject \<Rightarrow> error + message list" where
  "validate_config config =
     (case validate_log_level config [] of
        Inl e \<Rightarrow> Inl e
      | Inr errors1 \<Rightarrow>
          (case validate_template_style config errors1 of
             Inl e \<Rightarrow> Inl e
           | Inr errors2 \<Rightarrow> validate_language config errors2))"

text \<open>
  An attribute whose read does not fail: it gives a value or there is no such attribute.
  An attribute that does not hold an unhashable value.
\<close>

definition attr_readable :: "pyobject \<Rightarrow> string \<Rightarrow> bool" where
  "attr_readable config a =
     (case config a of Inr v \<Rightarrow> True | Inl e \<Rightarrow> e = AttributeError)"

definition attr_hashable :: "pyobject \<Rightarrow> string \<Rightarrow> bool" where
  "attr_hashable config a = (case config a of Inr v \<Rightarrow> hashable v | Inl e \<Rightarrow> True)"

section \<open>Configuration (src/config/settings.py, not among the sources)\<close>

text \<open>
  Modelled from the spec: the Configuration record of the specification's data model (the
  class \<^verbatim>\<open>AppConfig\<close> of \<^verbatim>\<open>src/config/settings.py\<close>, which the tests
  import and the sources do not hold): a debug flag, a log level, a template style, a
  language and an optional custom message.
\<close>

record AppConfig =
  debug :: bool
  log_level :: string
  template_style :: string
  language :: Language
  custom_message :: "string option"

text \<open>
  Modelled from the spec: the arguments of a construction of a Configuration (the
  constructor is in \<^verbatim>\<open>src/config/settings.py\<close>), before validation: any Python
  values.
\<close>

record AppConfig_args =
  arg_debug :: pyval
  arg_log_level :: pyval
  arg_template_style :: pyval
  arg_language :: pyval
  arg_custom_message :: pyval

text \<open>
  Modelled from the spec: the four checks of the specification's section 4.3, each giving
  the field's validated value, or \<open>None\<close> when the check fails. Check 1: the log level is
  a member of the closed set. Check 2: the template style names an entry of the registry.
  Check 3: the language is a \<open>Language\<close>, or a text convertible to one. Check 4: the
  debug flag is a bool, and the custom message, when present, is a text.
\<close>

fun check_log_level :: "pyval \<Rightarrow> string option" where
  "check_log_level (PyStr s) = (if s \<in> fst ` set LogLevel_members then Some s else None)"
| "check_log_level v = None"

fun check_template_style :: "pyval \<Rightarrow> string option" where
  "check_template_style (PyStr s) = (if s \<in> fst ` set list_templates then Some s else None)"
| "check_template_style v = None"

fun check_language :: "pyval \<Rightarrow> Language option" where
  "check_language (PyLanguage l) = Some l"
| "check_language (PyStr s) = find (\<lambda>l. Language_value l = s) Language_members"
| "check_language v = None"

fun check_debug :: "pyval \<Rightarrow> bool option" where
  "check_debug (PyBool b) = Some b"
| "check_debug v = None"

fun check_custom_message :: "pyval \<Rightarrow> string option option" where
  "check_custom_message PyNone = Some None"
| "check_custom_message (PyStr s) = Some (Some s)"
| "check_custom_message v = None"

text \<open>
  Modelled from the spec: what a failing construction carries, by the specification's
  section 4.3 an entry, field name and message, for every field whose check fails. This is
  the constructor's report, not \<open>validate_config\<close>, which returns messages without field
  names. The specification does not give the message texts: \<open>describe\<close>, from the field
  name and the rejected value to the message, is a parameter.
\<close>

definition field_error :: "(string \<Rightarrow> pyval \<Rightarrow> string) \<Rightarrow> string \<Rightarrow> pyval \<Rightarrow> 'a option \<Rightarrow> (string \<times> string) list" where
  "field_error describe field v checked =
     (case checked of None \<Rightarrow> [(field, describe field v)] | Some x \<Rightarrow> [])"

definition validation_errors :: "(string \<Rightarrow> pyval \<Rightarrow> string) \<Rightarrow> AppConfig_args \<Rightarrow> (string \<times> string) list" where
  "validation_errors describe a =
     field_error describe ''log_level'' (arg_log_level a) (check_log_level (arg_log_level a))
     @ field_error describe ''template_style'' (arg_template_style a)
         (check_template_style (arg_template_style a))
     @ field_error describe ''language'' (arg_language a) (check_language (arg_language a))
     @ field_error describe ''debug'' (arg_debug a) (check_debug (arg_debug a))
     @ field_error describe ''custom_message'' (arg_custom_message a)
         (check_custom_message (arg_custom_message a))"

text \<open>
  Modelled from the spec: the failure of a construction, ConfigValidationError, carrying
  the mapping from field name to message as the list of its entries.
\<close>

datatype config_error = ConfigValidationError "(string \<times> string) list"

text \<open>
  Modelled from the spec: construction of a Configuration (the constructor of
  \<^verbatim>\<open>AppConfig\<close> in \<^verbatim>\<open>src/config/settings.py\<close>). It fails with
  \<open>ConfigValidationError\<close>, carrying the accumulated entries, unless every check passes.
\<close>

definition new_AppConfig :: "(string \<Rightarrow> pyval \<Rightarrow> string) \<Rightarrow> AppConfig_args \<Rightarrow> config_error + AppConfig" where
  "new_AppConfig describe a =
     (case (check_debug (arg_debug a), check_log_level (arg_log_level a),
            check_template_style (arg_template_style a), check_language (arg_language a),
            check_custom_message (arg_custom_message a)) of
        (Some d, Some lv, Some ts, Some l, Some cm) \<Rightarrow>
          Inr \<lparr>debug = d, log_level = lv, template_style = ts, language = l,
               custom_message = cm\<rparr>
      | _ \<Rightarrow> Inl (ConfigValidationError (validation_errors describe a)))"

text \<open>
  Modelled from the spec: the persisted record of the specification's section 6, a flat
  key-value structure with the keys \<^verbatim>\<open>debug\<close> (a boolean literal),
  \<^verbatim>\<open>log_level\<close>, \<^verbatim>\<open>template_style\<close>, \<^verbatim>\<open>language\<close> (the language's
  code) and \<^verbatim>\<open>custom_message\<close> (a text or null). Reading and writing the file are
  outside the model. Loading constructs a Configuration from the record's values, through
  the same validation.
\<close>

record persisted =
  key_debug :: pyval
  key_log_level :: pyval
  key_template_style :: pyval
  key_language :: pyval
  key_custom_message :: pyval

definition save :: "AppConfig \<Rightarrow> persisted" where
  "save config =
     \<lparr>key_debug = PyBool (debug config),
      key_log_level = PyStr (log_level config),
      key_template_style = PyStr (template_style config),
      key_language = PyStr (Language_value (language config)),
      key_custom_message = (case custom_message config of None \<Rightarrow> PyNone | Some m \<Rightarrow> PyStr m)\<rparr>"

definition load :: "(string \<Rightarrow> pyval \<Rightarrow> string) \<Rightarrow> persisted \<Rightarrow> config_error + AppConfig" where
  "load describe r =
     new_AppConfig describe
       \<lparr>arg_debug = key_debug r, arg_log_level = key_log_level r,
        arg_template_style = key_template_style r, arg_language = key_language r,
        arg_custom_message = key_custom_message r\<rparr>"

section \<open>Rendering (src/main.py, not among the sources)\<close>


text \<open>
  Modelled from the spec: the failures of the renderer, by the names of the
  specification's error taxonomy.
\<close>

datatype render_error = EmptyNameError | TemplateNotFoundError | UnsupportedLanguageError


text \<open>
  Modelled from the spec: the Greeting Renderer of the specification's section 4.4 (the
  function \<^verbatim>\<open>greet\<close> of \<^verbatim>\<open>src/main.py\<close>, which the tests import and the
  sources do not hold). The name is rejected when it is the empty text; the translation and
  the template pattern are resolved; the message is the custom message, or the empty text.
  The specification gives two ways to produce the output, the composition from the
  translation and the substitution into the pattern, and does not say which applies when:
  \<open>produce\<close>, from the translation, the pattern, the name and the message to the output,
  is a parameter. The debug log record is an effect outside the returned value and is not
  modelled.
\<close>

definition render :: "(Translations \<Rightarrow> string \<Rightarrow> string \<Rightarrow> string \<Rightarrow> string) \<Rightarrow> string \<Rightarrow> AppConfig \<Rightarrow> render_error + string" where
  "render produce name config =
     (if name = [] then Inl EmptyNameError
      else case get_translation (PyLanguage (language config)) of
        Inl e \<Rightarrow> Inl UnsupportedLanguageError
      | Inr translations \<Rightarrow>
          (case get_template (template_style config) of
             Inl e \<Rightarrow> Inl TemplateNotFoundError
           | Inr pat \<Rightarrow>
               let message = (case custom_message config of None \<Rightarrow> [] | Some m \<Rightarrow> m)
               in Inr (produce translations pat name message)))"

section \<open>Properties of the translation table\<close>

lemma all_Language: "(\<forall>l. P l) = (P EN \<and> P ES \<and> P FR \<and> P DE \<and> P JA)"
  by (metis Language.exhaust)

lemma get_translation_member:
  "get_translation (PyLanguage l) = Inr (the (map_of TRANSLATIONS l))"
  by (cases l)
    (simp_all add: get_translation_def dict_contains_def dict_getitem_def TRANSLATIONS_def
      py_eq_Language_def)

lemma error_message_keys:
  "map fst (error_messages (the (map_of TRANSLATIONS l))) =
     [''invalid_name'', ''invalid_template'', ''invalid_language'']"
  by (cases l) (simp_all add: TRANSLATIONS_def)

lemma dict_find_TRANSLATIONS_None:
  "(dict_find py_eq_Language v TRANSLATIONS = None) = (\<forall>l. \<not> py_eq_Language v l)"
  by (simp add: TRANSLATIONS_def all_Language)

lemma get_translation_ValueError:
  "(get_translation v = Inl ValueError) = (hashable v \<and> (\<forall>l. \<not> py_eq_Language v l))"
proof (cases "hashable v")
  case False
  then show ?thesis by (simp add: get_translation_def dict_contains_def)
next
  case True
  show ?thesis
  proof (cases "dict_find py_eq_Language v TRANSLATIONS")
    case None
    with True show ?thesis
      using dict_find_TRANSLATIONS_None [of v]
      by (simp add: get_translation_def dict_contains_def)
  next
    case (Some t)
    with True show ?thesis
      using dict_find_TRANSLATIONS_None [of v]
      by (simp add: get_translation_def dict_contains_def dict_getitem_def)
  qed
qed

text \<open>
  C5, as amended. For each of the five members of \<open>Language\<close>, \<open>get_translation\<close>
  returns a record whose error messages have the keys \<^verbatim>\<open>invalid_name\<close>,
  \<^verbatim>\<open>invalid_template\<close> and \<^verbatim>\<open>invalid_language\<close>. It raises
  \<^verbatim>\<open>ValueError\<close>, the specification's UnsupportedLanguageError, exactly for the
  hashable arguments that equal none of the five members.
\<close>

theorem get_translation_closed_set:
  "(\<exists>t. get_translation (PyLanguage l) = Inr t
      \<and> {''invalid_name'', ''invalid_template'', ''invalid_language''}
          \<subseteq> fst ` set (error_messages t))
   \<and> ((get_translation v = Inl ValueError) = (hashable v \<and> (\<forall>l'. \<not> py_eq_Language v l')))"
proof -
  have "set (map fst (error_messages (the (map_of TRANSLATIONS l)))) =
      {''invalid_name'', ''invalid_template'', ''invalid_language''}"
    by (simp only: error_message_keys) simp
  then have "{''invalid_name'', ''invalid_template'', ''invalid_language''}
      \<subseteq> fst ` set (error_messages (the (map_of TRANSLATIONS l)))"
    by simp
  then show ?thesis
    using get_translation_member [of l] get_translation_ValueError [of v] by blast
qed

text \<open>
  C5, as stated, fails: a list is no member of \<open>Language\<close>, and \<open>get_translation\<close>
  raises \<^verbatim>\<open>TypeError\<close> for it, from the membership test, not \<^verbatim>\<open>ValueError\<close>.
\<close>

theorem get_translation_unhashable:
  "\<not> isinstance_Language (PyList []) \<and> get_translation (PyList []) = Inl TypeError
   \<and> get_translation (PyList []) \<noteq> Inl ValueError"
  by (simp add: get_translation_def dict_contains_def)

lemma TRANSLATIONS_member: "map_of TRANSLATIONS l = Some (the (map_of TRANSLATIONS l))"
  by (cases l) (simp_all add: TRANSLATIONS_def)

text \<open>
  C8. For every member of \<open>Language\<close> and every error key, \<open>translate_error\<close> returns
  the message that the language's entry of the translation table has for the key, and the
  key itself when the entry's error messages do not have the key; they have exactly the
  three keys. So the Japanese message for \<^verbatim>\<open>invalid_name\<close> and the Spanish one for
  \<^verbatim>\<open>invalid_language\<close> are the table's, and an unknown key comes back unchanged.
\<close>

theorem translate_error_fallback:
  "(\<exists>t. map_of TRANSLATIONS l = Some t
      \<and> translate_error k (PyLanguage l) =
          Inr (case map_of (error_messages t) k of Some m \<Rightarrow> m | None \<Rightarrow> k)
      \<and> ((map_of (error_messages t) k = None)
           = (k \<notin> {''invalid_name'', ''invalid_template'', ''invalid_language''})))
   \<and> translate_error ''invalid_name'' (PyLanguage JA) =
       Inr [CHR 0xE5, CHR 0x90, CHR 0x8D, CHR 0xE5, CHR 0x89, CHR 0x8D, CHR 0xE3, CHR 0x82, CHR 0x92,
            CHR 0xE5, CHR 0x85, CHR 0xA5, CHR 0xE5, CHR 0x8A, CHR 0x9B, CHR 0xE3, CHR 0x81, CHR 0x97,
            CHR 0xE3, CHR 0x81, CHR 0xA6, CHR 0xE3, CHR 0x81, CHR 0x8F, CHR 0xE3, CHR 0x81, CHR 0xA0,
            CHR 0xE3, CHR 0x81, CHR 0x95, CHR 0xE3, CHR 0x81, CHR 0x84]
   \<and> translate_error ''invalid_language'' (PyLanguage ES) = Inr ''Idioma no soportado''
   \<and> translate_error ''unknown_key'' (PyLanguage DE) = Inr ''unknown_key''"
proof -
  let ?t = "the (map_of TRANSLATIONS l)"
  have "(map_of (error_messages ?t) k = None) = (k \<notin> set (map fst (error_messages ?t)))"
    by (simp add: map_of_eq_None_iff)
  then have keys: "(map_of (error_messages ?t) k = None)
      = (k \<notin> {''invalid_name'', ''invalid_template'', ''invalid_language''})"
    by (simp only: error_message_keys) simp
  have "translate_error k (PyLanguage l) =
      Inr (case map_of (error_messages ?t) k of Some m \<Rightarrow> m | None \<Rightarrow> k)"
    by (simp add: translate_error_def get_translation_member dict_get_def)
  with keys TRANSLATIONS_member [of l] have general:
    "\<exists>t. map_of TRANSLATIONS l = Some t
      \<and> translate_error k (PyLanguage l) =
          Inr (case map_of (error_messages t) k of Some m \<Rightarrow> m | None \<Rightarrow> k)
      \<and> ((map_of (error_messages t) k = None)
           = (k \<notin> {''invalid_name'', ''invalid_template'', ''invalid_language''}))"
    by (intro exI [of _ ?t] conjI)
  have ja: "translate_error ''invalid_name'' (PyLanguage JA) =
       Inr [CHR 0xE5, CHR 0x90, CHR 0x8D, CHR 0xE5, CHR 0x89, CHR 0x8D, CHR 0xE3, CHR 0x82, CHR 0x92,
            CHR 0xE5, CHR 0x85, CHR 0xA5, CHR 0xE5, CHR 0x8A, CHR 0x9B, CHR 0xE3, CHR 0x81, CHR 0x97,
            CHR 0xE3, CHR 0x81, CHR 0xA6, CHR 0xE3, CHR 0x81, CHR 0x8F, CHR 0xE3, CHR 0x81, CHR 0xA0,
            CHR 0xE3, CHR 0x81, CHR 0x95, CHR 0xE3, CHR 0x81, CHR 0x84]"
    by (simp add: translate_error_def get_translation_member dict_get_def TRANSLATIONS_def)
  have es: "translate_error ''invalid_language'' (PyLanguage ES) = Inr ''Idioma no soportado''"
    by (simp add: translate_error_def get_translation_member dict_get_def TRANSLATIONS_def)
  have de: "translate_error ''unknown_key'' (PyLanguage DE) = Inr ''unknown_key''"
    by (simp add: translate_error_def get_translation_member dict_get_def TRANSLATIONS_def)
  from general ja es de show ?thesis by (intro conjI)
qed

section \<open>Properties of the template registry\<close>

lemma templates_names:
  "map fst templates = [''default'', ''formal'', ''friendly'', ''enthusiastic'']"
  by (simp add: templates_def)

lemma templates_distinct: "distinct (map fst templates)"
  by (simp add: templates_names)

text \<open>
  C6. \<open>search_by_tags\<close> returns exactly the entries of the registry whose tags meet the
  query set, each name once; the empty query gives the empty result, and the query
  \<^verbatim>\<open>{"business"}\<close> gives a result with the key \<^verbatim>\<open>formal\<close>.
\<close>

theorem search_by_tags_intersection:
  "set (search_by_tags qtags) = {(name, info). (name, info) \<in> set templates \<and> qtags \<inter> tags info \<noteq> {}}
   \<and> distinct (map fst (search_by_tags qtags))
   \<and> search_by_tags {} = []
   \<and> ''formal'' \<in> fst ` set (search_by_tags {''business''})"
proof -
  have "set (search_by_tags qtags)
      = {(name, info). (name, info) \<in> set templates \<and> qtags \<inter> tags info \<noteq> {}}"
    by (auto simp: search_by_tags_def)
  moreover have "distinct (map fst (search_by_tags qtags))"
    unfolding search_by_tags_def using templates_distinct by (rule distinct_map_filter)
  moreover have "search_by_tags {} = []"
    by (simp add: search_by_tags_def)
  moreover have "map fst (search_by_tags {''business''}) = [''formal'']"
    by (simp add: search_by_tags_def templates_def)
  then have "''formal'' \<in> set (map fst (search_by_tags {''business''}))"
    by (simp only:) simp
  then have "''formal'' \<in> fst ` set (search_by_tags {''business''})"
    by simp
  ultimately show ?thesis by blast
qed

text \<open>
  C7. \<open>get_by_category\<close> raises \<^verbatim>\<open>ValueError\<close>, the specification's
  InvalidCategoryError, exactly when the argument is not one of the four members of
  \<open>TemplateCategory\<close>; for a member it returns exactly the entries of the registry with
  that category, each name once.
\<close>

theorem get_by_category_member:
  "((get_by_category v = Inl ValueError)
      = (v \<notin> PyTemplateCategory ` {FORMAL, CASUAL, FUNNY, BUSINESS}))
   \<and> (\<exists>r. get_by_category (PyTemplateCategory c) = Inr r
        \<and> set r = {(name, info). (name, info) \<in> set templates \<and> category info = c}
        \<and> distinct (map fst r))"
proof -
  have univ: "{FORMAL, CASUAL, FUNNY, BUSINESS} = UNIV"
    using TemplateCategory.exhaust by auto
  have "(get_by_category v = Inl ValueError) = (v \<notin> range PyTemplateCategory)"
    by (cases v) (auto simp: get_by_category_def)
  moreover have "distinct (map fst
      (filter (\<lambda>(name, info). py_eq_TemplateCategory (category info) (PyTemplateCategory c)) templates))"
    using templates_distinct by (rule distinct_map_filter)
  ultimately show ?thesis
    unfolding univ by (auto simp: get_by_category_def)
qed

text \<open>
  C9. The registry holds the four templates \<^verbatim>\<open>default\<close>, \<^verbatim>\<open>formal\<close>,
  \<^verbatim>\<open>friendly\<close> and \<^verbatim>\<open>enthusiastic\<close>, and the pattern of each contains both
  placeholders, \<^verbatim>\<open>{name}\<close> and \<^verbatim>\<open>{message}\<close>.
\<close>

theorem templates_have_placeholders:
  "map fst list_templates = [''default'', ''formal'', ''friendly'', ''enthusiastic'']
   \<and> list_all (\<lambda>(name, info). contains (pattern info) ''{name}''
        \<and> contains (pattern info) ''{message}'') list_templates"
  by (simp add: list_templates_def templates_def)

section \<open>Properties of the validation\<close>

lemma Language_call_cases: "Language_call v = Inl ValueError \<or> (\<exists>l. Language_call v = Inr l)"
  by (cases "filter (py_eq_Language v) Language_members") (simp_all add: Language_call_def)

lemma LogLevel_members_contains:
  "hashable v \<Longrightarrow>
   dict_contains py_eq_str v LogLevel_members
     = Inr (v \<in> PyStr ` {''DEBUG'', ''INFO'', ''WARNING'', ''ERROR'', ''CRITICAL''})"
proof (cases v)
  case (PyLanguage l)
  then show ?thesis
    by (cases l) (auto simp: dict_contains_def LogLevel_members_def)
qed (auto simp: dict_contains_def LogLevel_members_def)

lemma list_templates_contains:
  "hashable v \<Longrightarrow>
   dict_contains py_eq_str v list_templates
     = Inr (v \<in> PyStr ` {''default'', ''formal'', ''friendly'', ''enthusiastic''})"
proof (cases v)
  case (PyLanguage l)
  then show ?thesis
    by (cases l) (auto simp: dict_contains_def list_templates_def templates_def)
qed (auto simp: dict_contains_def list_templates_def templates_def)

lemma Language_call_Inr:
  "(isinstance_Language v \<or> (\<exists>l. Language_call v = Inr l))
     = (v \<in> range PyLanguage \<union> PyStr ` {''en'', ''es'', ''fr'', ''de'', ''ja''})"
proof (cases v)
  case (PyLanguage l)
  then show ?thesis by simp
next
  case (PyStr s)
  then show ?thesis
    by (auto simp: Language_call_def Language_members_def py_eq_Language_def)
qed (auto simp: Language_call_def Language_members_def py_eq_Language_def)

lemma validate_log_level_accumulates:
  assumes "attr_readable config ''log_level''" and "attr_hashable config ''log_level''"
  shows "validate_log_level config errors =
     Inr (errors @
       (if config ''log_level''
             \<in> Inr ` PyStr ` {''DEBUG'', ''INFO'', ''WARNING'', ''ERROR'', ''CRITICAL''}
        then []
        else [FText ''Invalid log level: ''
                (case config ''log_level'' of Inr v \<Rightarrow> v | Inl e \<Rightarrow> PyNone)]))"
proof (cases "config ''log_level''")
  case (Inl e)
  with assms(1) have "e = AttributeError" by (simp add: attr_readable_def)
  with Inl show ?thesis
    by (auto simp: validate_log_level_def attr_not_in_def hasattr_def append_invalid_def
        getattr_default_def)
next
  case (Inr v)
  with assms(2) have "hashable v" by (simp add: attr_hashable_def)
  with Inr show ?thesis
    by (auto simp: validate_log_level_def attr_not_in_def hasattr_def append_invalid_def
        getattr_default_def LogLevel_members_contains)
qed

lemma validate_template_style_accumulates:
  assumes "attr_readable config ''template_style''" and "attr_hashable config ''template_style''"
  shows "validate_template_style config errors =
     Inr (errors @
       (if config ''template_style''
             \<in> Inr ` PyStr ` {''default'', ''formal'', ''friendly'', ''enthusiastic''}
        then []
        else [FText ''Invalid template style: ''
                (case config ''template_style'' of Inr v \<Rightarrow> v | Inl e \<Rightarrow> PyNone)]))"
proof (cases "config ''template_style''")
  case (Inl e)
  with assms(1) have "e = AttributeError" by (simp add: attr_readable_def)
  with Inl show ?thesis
    by (auto simp: validate_template_style_def attr_not_in_def hasattr_def append_invalid_def
        getattr_default_def)
next
  case (Inr v)
  with assms(2) have "hashable v" by (simp add: attr_hashable_def)
  with Inr show ?thesis
    by (auto simp: validate_template_style_def attr_not_in_def hasattr_def append_invalid_def
        getattr_default_def list_templates_contains)
qed

lemma validate_language_accumulates:
  assumes "attr_readable config ''language''"
  shows "validate_language config errors =
     Inr (errors @
       (case config ''language'' of
          Inl e \<Rightarrow> [Text ''Language not specified'']
        | Inr v \<Rightarrow>
            if v \<in> range PyLanguage \<union> PyStr ` {''en'', ''es'', ''fr'', ''de'', ''ja''} then []
            else [FText ''Invalid language: '' v]))"
proof (cases "config ''language''")
  case (Inl e)
  with assms have "e = AttributeError" by (simp add: attr_readable_def)
  with Inl show ?thesis
    by (simp add: validate_language_def hasattr_def)
next
  case (Inr v)
  show ?thesis
  proof (cases "v \<in> range PyLanguage \<union> PyStr ` {''en'', ''es'', ''fr'', ''de'', ''ja''}")
    case True
    then have "isinstance_Language v \<or> (\<exists>l. Language_call v = Inr l)"
      by (simp only: Language_call_Inr)
    with True Inr show ?thesis
      by (auto simp: validate_language_def hasattr_def)
  next
    case False
    then have no: "\<not> isinstance_Language v" "\<forall>l. Language_call v \<noteq> Inr l"
      using Language_call_Inr [of v] by auto
    then have "Language_call v = Inl ValueError"
      using Language_call_cases [of v] by auto
    with no(1) False Inr show ?thesis
      by (simp add: validate_language_def hasattr_def)
  qed
qed

text \<open>
  C2, as amended. \<open>validate_config\<close> runs three checks, the log level in the closed set,
  the template style in the registry, the language a \<open>Language\<close> or a text convertible
  to one, and none ends the pass: for an object whose three attributes can be read and
  whose log level and template style are not unhashable, it returns the list with one
  message for every failing check, in the order of the checks. A debug flag and a custom
  message are not looked at, and what is returned is the list of messages.
\<close>

theorem validate_config_accumulates:
  assumes "attr_readable config ''log_level''"
    and "attr_readable config ''template_style''"
    and "attr_readable config ''language''"
    and "attr_hashable config ''log_level''"
    and "attr_hashable config ''template_style''"
  shows "validate_config config =
     Inr ((if config ''log_level''
               \<in> Inr ` PyStr ` {''DEBUG'', ''INFO'', ''WARNING'', ''ERROR'', ''CRITICAL''}
           then []
           else [FText ''Invalid log level: ''
                   (case config ''log_level'' of Inr v \<Rightarrow> v | Inl e \<Rightarrow> PyNone)])
        @ (if config ''template_style''
               \<in> Inr ` PyStr ` {''default'', ''formal'', ''friendly'', ''enthusiastic''}
           then []
           else [FText ''Invalid template style: ''
                   (case config ''template_style'' of Inr v \<Rightarrow> v | Inl e \<Rightarrow> PyNone)])
        @ (case config ''language'' of
             Inl e \<Rightarrow> [Text ''Language not specified'']
           | Inr v \<Rightarrow>
               if v \<in> range PyLanguage \<union> PyStr ` {''en'', ''es'', ''fr'', ''de'', ''ja''}
               then []
               else [FText ''Invalid language: '' v]))"
  unfolding validate_config_def
  by (simp only: validate_log_level_accumulates [OF assms(1) assms(4)]
      validate_template_style_accumulates [OF assms(2) assms(5)]
      validate_language_accumulates [OF assms(3)] sum.case append_Nil append_assoc)

theorem validate_config_accumulates_witness:
  "attr_readable
     (no_attributes(''log_level'' := Inr (PyStr ''TRACE''),
        ''template_style'' := Inr (PyInt 123))) ''log_level''
   \<and> attr_readable
     (no_attributes(''log_level'' := Inr (PyStr ''TRACE''),
        ''template_style'' := Inr (PyInt 123))) ''template_style''
   \<and> attr_readable
     (no_attributes(''log_level'' := Inr (PyStr ''TRACE''),
        ''template_style'' := Inr (PyInt 123))) ''language''
   \<and> attr_hashable
     (no_attributes(''log_level'' := Inr (PyStr ''TRACE''),
        ''template_style'' := Inr (PyInt 123))) ''log_level''
   \<and> attr_hashable
     (no_attributes(''log_level'' := Inr (PyStr ''TRACE''),
        ''template_style'' := Inr (PyInt 123))) ''template_style''
   \<and> validate_config
       (no_attributes(''log_level'' := Inr (PyStr ''TRACE''),
          ''template_style'' := Inr (PyInt 123)))
     = Inr [FText ''Invalid log level: '' (PyStr ''TRACE''),
            FText ''Invalid template style: '' (PyInt 123),
            Text ''Language not specified'']"
proof -
  let ?c = "no_attributes(''log_level'' := Inr (PyStr ''TRACE''),
        ''template_style'' := Inr (PyInt 123))"
  have r: "attr_readable ?c ''log_level''" "attr_readable ?c ''template_style''"
      "attr_readable ?c ''language''"
    by (simp_all add: attr_readable_def no_attributes_def)
  have h: "attr_hashable ?c ''log_level''" "attr_hashable ?c ''template_style''"
    by (simp_all add: attr_hashable_def no_attributes_def)
  have "validate_config ?c
     = Inr [FText ''Invalid log level: '' (PyStr ''TRACE''),
            FText ''Invalid template style: '' (PyInt 123),
            Text ''Language not specified'']"
    using validate_config_accumulates [OF r h] by (simp add: no_attributes_def)
  with r h show ?thesis by (intro conjI)
qed

text \<open>
  C2, as stated, fails: an object with a valid log level, template style and language
  whose debug flag is a text and whose custom message is an int passes
  \<open>validate_config\<close> with no message at all. There is no fourth check, and nothing is
  raised.
\<close>

theorem validate_config_three_checks:
  "validate_config
     (no_attributes(''log_level'' := Inr (PyStr ''INFO''),
        ''template_style'' := Inr (PyStr ''default''),
        ''language'' := Inr (PyStr ''es''),
        ''debug'' := Inr (PyStr ''not_a_bool''),
        ''custom_message'' := Inr (PyInt 123)))
   = Inr []"
  by (simp add: validate_config_def validate_log_level_def validate_template_style_def
      validate_language_def attr_not_in_def hasattr_def dict_contains_def LogLevel_members_def
      list_templates_def templates_def Language_call_def Language_members_def
      py_eq_Language_def)

text \<open>
  C10. For an object whose log level is a list, with a valid template style and language,
  \<open>validate_config\<close> raises \<^verbatim>\<open>TypeError\<close> from the membership test of the first
  check and returns no list. The same list as the language is reported, and so is a log
  level that is \<^verbatim>\<open>None\<close>.
\<close>

theorem validate_config_unhashable_log_level:
  "validate_config
     (no_attributes(''log_level'' := Inr (PyList []),
        ''template_style'' := Inr (PyStr ''default''),
        ''language'' := Inr (PyLanguage EN)))
   = Inl TypeError
   \<and> validate_config
     (no_attributes(''log_level'' := Inr (PyStr ''INFO''),
        ''template_style'' := Inr (PyStr ''default''),
        ''language'' := Inr (PyList [])))
   = Inr [FText ''Invalid language: '' (PyList [])]
   \<and> validate_config
     (no_attributes(''log_level'' := Inr PyNone,
        ''template_style'' := Inr (PyStr ''default''),
        ''language'' := Inr (PyLanguage EN)))
   = Inr [FText ''Invalid log level: '' PyNone]"
  by (simp add: validate_config_def validate_log_level_def validate_template_style_def
      validate_language_def attr_not_in_def hasattr_def append_invalid_def getattr_default_def
      dict_contains_def LogLevel_members_def list_templates_def templates_def
      Language_call_def Language_members_def py_eq_Language_def)

section \<open>Properties of the modelled configuration and renderer\<close>



lemma get_template_Inr: "(\<exists>p. get_template n = Inr p) = (n \<in> fst ` set templates)"
proof (cases "map_of templates n")
  case None
  then have "n \<notin> fst ` set templates" by (simp add: map_of_eq_None_iff)
  with None show ?thesis by (simp add: get_template_def)
next
  case (Some i)
  then have "n \<in> fst ` set templates" by (metis map_of_eq_None_iff option.distinct(1))
  with Some show ?thesis by (simp add: get_template_def)
qed

text \<open>
  C4. \<open>render\<close> fails with EmptyNameError exactly when the name is the empty text,
  whatever the configuration and however the output is produced; no other name is rejected for being empty-like (a name of
  spaces, of symbols or of bytes outside ASCII is rendered), and a non-empty name is
  rendered exactly when the configuration's template style is registered.
\<close>

theorem render_empty_name:
  "((render produce name config = Inl EmptyNameError) = (name = []))
   \<and> ((\<exists>s. render produce name config = Inr s)
        = (name \<noteq> [] \<and> template_style config \<in> fst ` set list_templates))"
proof (cases "get_template (template_style config)")
  case (Inl e)
  then have "template_style config \<notin> fst ` set templates"
    using get_template_Inr [of "template_style config"] by simp
  with Inl show ?thesis
    by (simp add: render_def get_translation_member list_templates_def)
next
  case (Inr p)
  then have "template_style config \<in> fst ` set templates"
    using get_template_Inr [of "template_style config"] by simp
  with Inr show ?thesis
    by (simp add: render_def get_translation_member list_templates_def Let_def)
qed

lemma check_log_level_Some:
  "check_log_level v = Some s \<Longrightarrow> check_log_level (PyStr s) = Some s"
  by (cases v) (simp_all split: if_splits)
lemma check_template_style_Some:
  "check_template_style v = Some s \<Longrightarrow> check_template_style (PyStr s) = Some s"
  by (cases v) (simp_all split: if_splits)
lemma check_language_value: "check_language (PyStr (Language_value l)) = Some l"
  by (cases l) (simp_all add: Language_members_def)
lemma check_custom_message_Some:
  "check_custom_message v = Some cm \<Longrightarrow>
   check_custom_message (case cm of None \<Rightarrow> PyNone | Some m \<Rightarrow> PyStr m) = Some cm"
  by (cases v) auto

lemma new_AppConfig_Inr:
  "(new_AppConfig describe a = Inr c) =
   (\<exists>d lv ts l cm. check_debug (arg_debug a) = Some d \<and> check_log_level (arg_log_level a) = Some lv
      \<and> check_template_style (arg_template_style a) = Some ts \<and> check_language (arg_language a) = Some l
      \<and> check_custom_message (arg_custom_message a) = Some cm
      \<and> c = \<lparr>debug = d, log_level = lv, template_style = ts, language = l, custom_message = cm\<rparr>)"
  by (auto simp: new_AppConfig_def split: option.splits)

text \<open>
  C3. For every valid Configuration, one that a construction returns, loading the record
  it saves returns the same Configuration: the debug flag, the log level, the template
  style, the language and the custom message are the ones saved. Loading any record is the
  construction from the record's values, with its validation.
\<close>

theorem load_save_roundtrip:
  assumes "new_AppConfig describe a = Inr c"
  shows "load describe (save c) = Inr c
     \<and> load describe r =
         new_AppConfig describe
           \<lparr>arg_debug = key_debug r, arg_log_level = key_log_level r,
            arg_template_style = key_template_style r, arg_language = key_language r,
            arg_custom_message = key_custom_message r\<rparr>"
proof -
  have same: "load describe r =
      new_AppConfig describe
        \<lparr>arg_debug = key_debug r, arg_log_level = key_log_level r,
         arg_template_style = key_template_style r, arg_language = key_language r,
         arg_custom_message = key_custom_message r\<rparr>"
    by (simp only: load_def)
  from assms obtain d lv ts l cm where
    h: "check_debug (arg_debug a) = Some d" "check_log_level (arg_log_level a) = Some lv"
      "check_template_style (arg_template_style a) = Some ts" "check_language (arg_language a) = Some l"
      "check_custom_message (arg_custom_message a) = Some cm"
      and c: "c = \<lparr>debug = d, log_level = lv, template_style = ts, language = l, custom_message = cm\<rparr>"
    unfolding new_AppConfig_Inr by auto
  have "load describe (save c) = Inr c"
    unfolding load_def new_AppConfig_Inr
    using check_log_level_Some [OF h(2)] check_template_style_Some [OF h(3)]
      check_custom_message_Some [OF h(5)]
    by (simp add: save_def c check_language_value
        del: check_language.simps check_log_level.simps check_template_style.simps)
  with same show ?thesis by (intro conjI)
qed

theorem load_save_roundtrip_witness:
  "new_AppConfig (\<lambda>field v. field)
     \<lparr>arg_debug = PyBool True, arg_log_level = PyStr ''INFO'',
      arg_template_style = PyStr ''formal'', arg_language = PyLanguage ES,
      arg_custom_message = PyStr ''Test message''\<rparr>
     = Inr \<lparr>debug = True, log_level = ''INFO'', template_style = ''formal'', language = ES,
          custom_message = Some ''Test message''\<rparr>
   \<and> load (\<lambda>field v. field)
       (save \<lparr>debug = True, log_level = ''INFO'', template_style = ''formal'', language = ES,
          custom_message = Some ''Test message''\<rparr>)
     = Inr \<lparr>debug = True, log_level = ''INFO'', template_style = ''formal'', language = ES,
          custom_message = Some ''Test message''\<rparr>"
proof -
  have h: "new_AppConfig (\<lambda>field v. field)
     \<lparr>arg_debug = PyBool True, arg_log_level = PyStr ''INFO'',
      arg_template_style = PyStr ''formal'', arg_language = PyLanguage ES,
      arg_custom_message = PyStr ''Test message''\<rparr>
     = Inr \<lparr>debug = True, log_level = ''INFO'', template_style = ''formal'', language = ES,
          custom_message = Some ''Test message''\<rparr>"
    by (simp add: new_AppConfig_def LogLevel_members_def list_templates_def templates_def)
  have "load (\<lambda>field v. field)
       (save \<lparr>debug = True, log_level = ''INFO'', template_style = ''formal'', language = ES,
          custom_message = Some ''Test message''\<rparr>)
     = Inr \<lparr>debug = True, log_level = ''INFO'', template_style = ''formal'', language = ES,
          custom_message = Some ''Test message''\<rparr>"
    using load_save_roundtrip [OF h] by (rule conjunct1)
  with h show ?thesis by (rule conjI)
qed





end
